theory Spec2Isabelle
  imports Main
begin

section \<open>Values of the Notion explorer\<close>

text \<open>
  The tools of \<^verbatim>\<open>main.py\<close> work on what \<^verbatim>\<open>response.json()\<close> returns: Python
  values built from \<^verbatim>\<open>None\<close>, booleans, integers, strings, lists and dictionaries
  with string keys. A dictionary is an association list in insertion order (the
  order \<^verbatim>\<open>.items()\<close> walks), read at the first binding of a key. JSON numbers
  with a fraction or an exponent (Python floats) are not part of the model.

  A Python string is given by its UTF-8 bytes (a lone surrogate by the three
  bytes of its code point); concatenation, joining, equality, emptiness and the
  substring test are the same on characters and on bytes. Where Python walks or
  counts the characters of a string, the bytes of each character are taken
  together (\<open>utf8_chars\<close>).
\<close>

datatype json =
    JNull
  | JBool bool
  | JInt int
  | JStr string
  | JList "json list"
  | JObj "(string \<times> json) list"

text \<open>The exceptions the code can raise, by class.\<close>

datatype error =
    AttributeError
  | TypeError
  | KeyError
  | ValueError string
  | JSONDecodeError
  | TransportError

type_synonym 'a result = "error + 'a"

definition rbind :: "'a result \<Rightarrow> ('a \<Rightarrow> 'b result) \<Rightarrow> 'b result" where
  "rbind m f = (case m of Inl e \<Rightarrow> Inl e | Inr x \<Rightarrow> f x)"

text \<open>Evaluating a list of computations from left to right, stopping at the first raise.\<close>

fun rmap :: "('a \<Rightarrow> 'b result) \<Rightarrow> 'a list \<Rightarrow> 'b list result" where
  "rmap f [] = Inr []"
| "rmap f (x # xs) =
     (case f x of
        Inl e \<Rightarrow> Inl e
      | Inr y \<Rightarrow> (case rmap f xs of Inl e \<Rightarrow> Inl e | Inr ys \<Rightarrow> Inr (y # ys)))"

subsection \<open>Python's primitive operations\<close>

text \<open>Truthiness: what \<^verbatim>\<open>if v:\<close> and \<^verbatim>\<open>not v\<close> test.\<close>

fun truthy :: "json \<Rightarrow> bool" where
  "truthy JNull = False"
| "truthy (JBool b) = b"
| "truthy (JInt n) = (n \<noteq> 0)"
| "truthy (JStr s) = (s \<noteq> [])"
| "truthy (JList xs) = (xs \<noteq> [])"
| "truthy (JObj kvs) = (kvs \<noteq> [])"

text \<open>\<^verbatim>\<open>d.get(k, default)\<close> and \<^verbatim>\<open>k in d\<close> on a dictionary, \<^verbatim>\<open>d[k] = v\<close> on a dictionary.\<close>

definition dict_get :: "(string \<times> json) list \<Rightarrow> string \<Rightarrow> json \<Rightarrow> json" where
  "dict_get d k dflt = (case map_of d k of None \<Rightarrow> dflt | Some v \<Rightarrow> v)"

definition dict_has :: "(string \<times> json) list \<Rightarrow> string \<Rightarrow> bool" where
  "dict_has d k = (map_of d k \<noteq> None)"

fun dict_set :: "(string \<times> json) list \<Rightarrow> string \<Rightarrow> json \<Rightarrow> (string \<times> json) list" where
  "dict_set [] k v = [(k, v)]"
| "dict_set ((k', v') # d) k v = (if k' = k then (k, v) # d else (k', v') # dict_set d k v)"

text \<open>
  The same operations on a value of any type. A value that is no dictionary has
  no \<^verbatim>\<open>get\<close> method (AttributeError). \<^verbatim>\<open>"k" in v\<close> is key membership on a
  dictionary, element membership on a list, the substring test on a string, and a
  TypeError otherwise. \<^verbatim>\<open>v["k"]\<close> is a KeyError for a missing key and a TypeError
  on every value that is no dictionary.
\<close>

fun py_get :: "json \<Rightarrow> string \<Rightarrow> json \<Rightarrow> json result" where
  "py_get (JObj d) k dflt = Inr (dict_get d k dflt)"
| "py_get _ k dflt = Inl AttributeError"

fun is_prefix :: "string \<Rightarrow> string \<Rightarrow> bool" where
  "is_prefix [] ys = True"
| "is_prefix (x # xs) [] = False"
| "is_prefix (x # xs) (y # ys) = (x = y \<and> is_prefix xs ys)"

fun is_substring :: "string \<Rightarrow> string \<Rightarrow> bool" where
  "is_substring xs [] = (xs = [])"
| "is_substring xs (y # ys) = (is_prefix xs (y # ys) \<or> is_substring xs ys)"

fun py_in :: "string \<Rightarrow> json \<Rightarrow> bool result" where
  "py_in k (JObj d) = Inr (dict_has d k)"
| "py_in k (JList xs) = Inr (JStr k \<in> set xs)"
| "py_in k (JStr s) = Inr (is_substring k s)"
| "py_in k _ = Inl TypeError"

fun py_item :: "json \<Rightarrow> string \<Rightarrow> json result" where
  "py_item (JObj d) k = (case map_of d k of None \<Rightarrow> Inl KeyError | Some v \<Rightarrow> Inr v)"
| "py_item _ k = Inl TypeError"

text \<open>
  A dictionary key must be hashable: \<^verbatim>\<open>v in d\<close> and \<^verbatim>\<open>d[v]\<close> raise a TypeError
  for a list or a dictionary \<open>v\<close>. The keys are strings, so no other value than a
  string is ever found.
\<close>

fun dict_has_value :: "(string \<times> json) list \<Rightarrow> json \<Rightarrow> bool result" where
  "dict_has_value d (JStr k) = Inr (dict_has d k)"
| "dict_has_value d (JList xs) = Inl TypeError"
| "dict_has_value d (JObj kvs) = Inl TypeError"
| "dict_has_value d _ = Inr False"

fun dict_item_value :: "(string \<times> json) list \<Rightarrow> json \<Rightarrow> json result" where
  "dict_item_value d (JStr k) = (case map_of d k of None \<Rightarrow> Inl KeyError | Some v \<Rightarrow> Inr v)"
| "dict_item_value d (JList xs) = Inl TypeError"
| "dict_item_value d (JObj kvs) = Inl TypeError"
| "dict_item_value d _ = Inl KeyError"

text \<open>
  The characters of a string, each as its bytes: a byte \<open>10xxxxxx\<close> continues
  the character before it. \<open>code_point\<close> is the number such a group of bytes
  encodes.
\<close>

definition is_continuation :: "char \<Rightarrow> bool" where
  "is_continuation c = (128 \<le> (of_char c :: nat) \<and> (of_char c :: nat) < 192)"

fun utf8_chars :: "string \<Rightarrow> string list" where
  "utf8_chars [] = []"
| "utf8_chars (c # cs) =
     (case utf8_chars cs of
        [] \<Rightarrow> [[c]]
      | [] # gs \<Rightarrow> [c] # gs
      | (b # g) # gs \<Rightarrow>
          if is_continuation b then (c # b # g) # gs else [c] # (b # g) # gs)"

fun code_point :: "string \<Rightarrow> nat" where
  "code_point [] = 0"
| "code_point [c] = of_char c"
| "code_point (c # cs) =
     foldl (\<lambda>a b. a * 64 + of_char b mod 64) (of_char c mod 2 ^ (6 - length cs)) cs"

text \<open>
  Iteration (\<^verbatim>\<open>for x in v\<close>): the elements of a list, the keys of a dictionary,
  the characters of a string; \<^verbatim>\<open>None\<close>, booleans and integers are not iterable.
\<close>

fun py_iter :: "json \<Rightarrow> json list result" where
  "py_iter (JList xs) = Inr xs"
| "py_iter (JObj d) = Inr (map (\<lambda>kv. JStr (fst kv)) d)"
| "py_iter (JStr s) = Inr (map JStr (utf8_chars s))"
| "py_iter _ = Inl TypeError"

text \<open>\<^verbatim>\<open>sep.join(xs)\<close>: every element must be a string.\<close>

fun str_join :: "string \<Rightarrow> string list \<Rightarrow> string" where
  "str_join sep [] = []"
| "str_join sep [x] = x"
| "str_join sep (x # y # ys) = x @ sep @ str_join sep (y # ys)"

fun as_str :: "json \<Rightarrow> string result" where
  "as_str (JStr s) = Inr s"
| "as_str _ = Inl TypeError"

definition py_join :: "string \<Rightarrow> json list \<Rightarrow> string result" where
  "py_join sep xs = rbind (rmap as_str xs) (\<lambda>ss. Inr (str_join sep ss))"

text \<open>\<^verbatim>\<open>s * n\<close> for a string and an integer: empty for \<open>n \<le> 0\<close>.\<close>

definition str_times :: "string \<Rightarrow> int \<Rightarrow> string" where
  "str_times s n = concat (replicate (nat n) s)"

subsection \<open>Formatting values: \<^verbatim>\<open>str\<close> and \<^verbatim>\<open>repr\<close>\<close>

definition digit_char :: "nat \<Rightarrow> char" where
  "digit_char n = ''0123456789abcdef'' ! (n mod 16)"

fun digits_of :: "nat \<Rightarrow> string" where
  "digits_of n = (if n < 10 then [digit_char n] else digits_of (n div 10) @ [digit_char (n mod 10)])"

declare digits_of.simps [simp del]

definition str_of_int :: "int \<Rightarrow> string" where
  "str_of_int i = (if i < 0 then CHR ''-'' # digits_of (nat (- i)) else digits_of (nat i))"

text \<open>
  \<^verbatim>\<open>repr\<close> of a string: single quotes, unless the string holds a single quote and
  no double quote; the quote character and the backslash are escaped, tab, newline
  and carriage return are written \<^verbatim>\<open>\t\<close>, \<^verbatim>\<open>\n\<close>, \<^verbatim>\<open>\r\<close>, every other
  character that is not printable as \<^verbatim>\<open>\xhh\<close>, \<^verbatim>\<open>\uhhhh\<close> or \<^verbatim>\<open>\Uhhhhhhhh\<close>
  by the size of its code point. In ASCII the printable characters are those from
  the space to the tilde. Beyond ASCII, which code points are printable is a table
  of the Unicode database the interpreter was built with (\<^verbatim>\<open>str.isprintable\<close>);
  the table is no part of the repository and is a parameter, \<open>printable\<close>, of
  everything that formats a value.
\<close>

type_synonym unicode_table = "nat \<Rightarrow> bool"

fun hex_pad :: "nat \<Rightarrow> nat \<Rightarrow> string" where
  "hex_pad 0 n = []"
| "hex_pad (Suc k) n = hex_pad k (n div 16) @ [digit_char (n mod 16)]"

definition repr_quote :: "string \<Rightarrow> char" where
  "repr_quote s = (if CHR 0x27 \<in> set s \<and> CHR 0x22 \<notin> set s then CHR 0x22 else CHR 0x27)"

definition repr_char :: "unicode_table \<Rightarrow> char \<Rightarrow> string \<Rightarrow> string" where
  "repr_char printable q g =
     (let cp = code_point g
      in if g = [q] \<or> g = [CHR 0x5C] then CHR 0x5C # g
         else if g = [CHR 0x09] then [CHR 0x5C, CHR ''t'']
         else if g = [CHR 0x0A] then [CHR 0x5C, CHR ''n'']
         else if g = [CHR 0x0D] then [CHR 0x5C, CHR ''r'']
         else if cp < 32 \<or> cp = 127 then [CHR 0x5C, CHR ''x''] @ hex_pad 2 cp
         else if cp < 127 then g
         else if printable cp then g
         else if cp < 256 then [CHR 0x5C, CHR ''x''] @ hex_pad 2 cp
         else if cp < 65536 then [CHR 0x5C, CHR ''u''] @ hex_pad 4 cp
         else [CHR 0x5C, CHR ''U''] @ hex_pad 8 cp)"

definition repr_str :: "unicode_table \<Rightarrow> string \<Rightarrow> string" where
  "repr_str printable s =
     (let q = repr_quote s
      in q # concat (map (repr_char printable q) (utf8_chars s)) @ [q])"

fun py_repr :: "unicode_table \<Rightarrow> json \<Rightarrow> string" where
  "py_repr printable JNull = ''None''"
| "py_repr printable (JBool b) = (if b then ''True'' else ''False'')"
| "py_repr printable (JInt i) = str_of_int i"
| "py_repr printable (JStr s) = repr_str printable s"
| "py_repr printable (JList xs) = ''['' @ str_join '', '' (map (py_repr printable) xs) @ '']''"
| "py_repr printable (JObj d) =
     ''{'' @ str_join '', ''
              (map (\<lambda>kv. repr_str printable (fst kv) @ '': '' @ py_repr printable (snd kv)) d)
     @ ''}''"

text \<open>\<^verbatim>\<open>str(v)\<close>, which is what an f-string field \<^verbatim>\<open>{v}\<close> writes.\<close>

fun py_str :: "unicode_table \<Rightarrow> json \<Rightarrow> string" where
  "py_str printable (JStr s) = s"
| "py_str printable v = py_repr printable v"

section \<open>The block renderer\<close>

text \<open>The four characters of the source beyond ASCII, in UTF-8.\<close>

definition check_mark :: string where
  "check_mark = [CHR 0xE2, CHR 0x9C, CHR 0x93]"

definition ballot_box :: string where
  "ballot_box = [CHR 0xE2, CHR 0x98, CHR 0x90]"

definition bullet :: string where
  "bullet = [CHR 0xE2, CHR 0x80, CHR 0xA2]"

definition right_triangle :: string where
  "right_triangle = [CHR 0xE2, CHR 0x96, CHR 0xB6]"

definition newline :: string where
  "newline = [CHR 0x0A]"

text \<open>
  \<^verbatim>\<open>sep.join([part.get(field, "") for part in parts])\<close>: the list is built
  first (a part that is no dictionary raises there), then joined (a field that is
  no string raises there).
\<close>

definition join_field :: "string \<Rightarrow> string \<Rightarrow> json \<Rightarrow> string result" where
  "join_field sep field parts =
     rbind (py_iter parts) (\<lambda>items.
     rbind (rmap (\<lambda>part. py_get part field (JStr [])) items) (\<lambda>texts.
     py_join sep texts))"

definition plain_texts :: "json \<Rightarrow> string result" where
  "plain_texts parts = join_field [] ''plain_text'' parts"

text \<open>The same over \<^verbatim>\<open>content.get(key, [])\<close>.\<close>

definition rich_text_of :: "json \<Rightarrow> string \<Rightarrow> string result" where
  "rich_text_of content key = rbind (py_get content key (JList [])) plain_texts"

text \<open>
  The \<^verbatim>\<open>if\<close>/\<^verbatim>\<open>elif\<close> chain of \<^verbatim>\<open>format_block\<close>: the one entry each branch
  appends to \<^verbatim>\<open>result\<close>.
\<close>

definition image_url :: "json \<Rightarrow> json result" where
  "image_url content =
     rbind (py_in ''file'' content) (\<lambda>has_file.
       if has_file then rbind (py_item content ''file'') (\<lambda>f. py_get f ''url'' (JStr []))
       else rbind (py_in ''external'' content) (\<lambda>has_external.
         if has_external
         then rbind (py_item content ''external'') (\<lambda>f. py_get f ''url'' (JStr []))
         else Inr (JStr [])))"

definition block_entry :: "unicode_table \<Rightarrow> json \<Rightarrow> json \<Rightarrow> string \<Rightarrow> string result" where
  "block_entry printable block_type content indent_str =
     (if block_type = JStr ''paragraph'' then
        rbind (rich_text_of content ''rich_text'') (\<lambda>text. Inr (indent_str @ text))
      else if block_type = JStr ''heading_1'' then
        rbind (rich_text_of content ''rich_text'') (\<lambda>text. Inr (indent_str @ ''# '' @ text))
      else if block_type = JStr ''heading_2'' then
        rbind (rich_text_of content ''rich_text'') (\<lambda>text. Inr (indent_str @ ''## '' @ text))
      else if block_type = JStr ''heading_3'' then
        rbind (rich_text_of content ''rich_text'') (\<lambda>text. Inr (indent_str @ ''### '' @ text))
      else if block_type = JStr ''bulleted_list_item'' then
        rbind (rich_text_of content ''rich_text'') (\<lambda>text.
          Inr (indent_str @ bullet @ '' '' @ text))
      else if block_type = JStr ''numbered_list_item'' then
        rbind (rich_text_of content ''rich_text'') (\<lambda>text. Inr (indent_str @ ''1. '' @ text))
      else if block_type = JStr ''to_do'' then
        rbind (rich_text_of content ''rich_text'') (\<lambda>text.
        rbind (py_get content ''checked'' (JBool False)) (\<lambda>c.
          let checked = (if truthy c then check_mark else ballot_box)
          in Inr (indent_str @ checked @ '' '' @ text)))
      else if block_type = JStr ''toggle'' then
        rbind (rich_text_of content ''rich_text'') (\<lambda>text.
          Inr (indent_str @ right_triangle @ '' '' @ text))
      else if block_type = JStr ''code'' then
        rbind (rich_text_of content ''rich_text'') (\<lambda>text.
        rbind (py_get content ''language'' (JStr [])) (\<lambda>language.
          Inr (indent_str @ ''```'' @ py_str printable language @ newline
               @ indent_str @ text @ newline
               @ indent_str @ ''```'')))
      else if block_type = JStr ''image'' then
        rbind (rich_text_of content ''caption'') (\<lambda>caption.
        rbind (image_url content) (\<lambda>url.
          let caption_text = (if caption \<noteq> [] then '' - '' @ caption else [])
          in Inr (indent_str @ ''[Image'' @ caption_text @ '']('' @ py_str printable url @ '')'')))
      else if block_type = JStr ''divider'' then
        Inr (indent_str @ ''---'')
      else if block_type = JStr ''callout'' then
        rbind (rich_text_of content ''rich_text'') (\<lambda>text.
        rbind (py_get content ''icon'' (JObj [])) (\<lambda>icon.
        rbind (py_get icon ''emoji'' (JStr [])) (\<lambda>emoji.
          Inr (indent_str @ py_str printable emoji @ '' | '' @ text))))
      else if block_type = JStr ''quote'' then
        rbind (rich_text_of content ''rich_text'') (\<lambda>text. Inr (indent_str @ ''> '' @ text))
      else if block_type = JStr ''table'' then
        Inr (indent_str @ ''[Table - use get_table_content to view]'')
      else
        Inr (indent_str @ ''['' @ py_str printable block_type @ '' block]''))"

definition unsupported_line :: "unicode_table \<Rightarrow> string \<Rightarrow> json \<Rightarrow> string" where
  "unsupported_line printable indent_str block_type =
     indent_str @ ''[Unsupported block type: '' @ py_str printable block_type @ '']''"

definition children_note :: "string \<Rightarrow> string" where
  "children_note indent_str =
     indent_str @ ''[This block has child blocks that aren't displayed here]''"

text \<open>
  \<^verbatim>\<open>format_block(block, indent)\<close>. The argument is whatever the response's result
  list holds; \<^verbatim>\<open>block.get\<close> raises on a value that is no dictionary.
\<close>

fun format_block :: "unicode_table \<Rightarrow> json \<Rightarrow> int \<Rightarrow> string result" where
  "format_block printable (JObj block) indent =
     (let block_type = dict_get block ''type'' JNull;
          block_id = dict_get block ''id'' JNull;
          has_children = dict_get block ''has_children'' (JBool False);
          indent_str = str_times ''  '' indent
      in if \<not> truthy block_type then Inr (unsupported_line printable indent_str block_type)
         else rbind (dict_has_value block block_type) (\<lambda>present.
           if \<not> present then Inr (unsupported_line printable indent_str block_type)
           else rbind (dict_item_value block block_type) (\<lambda>content.
                rbind (block_entry printable block_type content indent_str) (\<lambda>entry.
                  let result = [entry];
                      result = (if truthy has_children
                                then result @ [children_note indent_str] else result)
                  in Inr (str_join newline result)))))"
| "format_block printable _ indent = Inl AttributeError"

declare format_block.simps [simp del]

section \<open>Credential, context and network\<close>

text \<open>
  What a tool invocation does besides returning: it reads the environment variable
  \<^verbatim>\<open>NOTION_API_KEY\<close>, stores it in the module's global of that name, calls the
  context object \<^verbatim>\<open>ctx\<close> the dispatcher hands in, logs, prints, and sends HTTP
  requests. The world records what happens, in order: a report delivered through
  the context (\<open>CtxError\<close>), a log record written (\<open>LogInfo\<close>), a line printed
  (\<open>Print\<close>), a request sent (\<open>Http\<close>). The remote service is a parameter
  \<open>net\<close>: it answers a request with a response, or the transport raises.

  A tool awaits each request before it goes on, so one invocation is a sequence
  of steps on the world. The warning the module prints when it is imported is no
  part of an invocation.
\<close>

datatype http_method = GET | POST

record request =
  http_method :: http_method
  url :: string
  headers :: "(string \<times> string) list"
  json_payload :: "json option"

text \<open>
  \<open>json_body\<close> is what \<^verbatim>\<open>response.json()\<close> returns, \<open>None\<close> when the body does
  not parse (the call raises then).
\<close>

record response =
  status_code :: int
  response_text :: string
  json_body :: "json option"

datatype event =
    CtxError string
  | LogInfo string "string list"
  | Print string
  | Http request

record world =
  environ_key :: "string option"
  NOTION_API_KEY :: "string option"
  events :: "event list"

type_synonym 'a prog = "world \<Rightarrow> 'a result \<times> world"

definition pbind :: "'a prog \<Rightarrow> ('a \<Rightarrow> 'b prog) \<Rightarrow> 'b prog" where
  "pbind m f w = (case m w of (Inl e, w') \<Rightarrow> (Inl e, w') | (Inr x, w') \<Rightarrow> f x w')"

definition done_with :: "'a result \<Rightarrow> 'a prog" where
  "done_with r w = (r, w)"

definition emit :: "event \<Rightarrow> unit prog" where
  "emit ev w = (Inr (), w\<lparr>events := events w @ [ev]\<rparr>)"

definition NOTION_VERSION :: string where
  "NOTION_VERSION = ''2022-06-28''"

text \<open>A string option is falsy when it is \<^verbatim>\<open>None\<close> or empty.\<close>

fun truthy_opt :: "string option \<Rightarrow> bool" where
  "truthy_opt None = False"
| "truthy_opt (Some s) = (s \<noteq> [])"

fun str_opt :: "string option \<Rightarrow> string" where
  "str_opt None = ''None''"
| "str_opt (Some s) = s"

text \<open>
  The context is the one of the \<^verbatim>\<open>FastMCP\<close> server the module creates: its
  \<^verbatim>\<open>error\<close> method is a coroutine function. Awaited, it delivers the message
  (\<open>ctx_error\<close>). Called without \<^verbatim>\<open>await\<close>, it only makes a coroutine object;
  when that object is dropped, nothing of the coroutine has run (\<open>not_awaited\<close>).
\<close>

definition ctx_error :: "string \<Rightarrow> unit prog" where
  "ctx_error message = emit (CtxError message)"

definition not_awaited :: "unit prog \<Rightarrow> unit prog" where
  "not_awaited coroutine = done_with (Inr ())"

text \<open>The reports delivered through the context so far, oldest first.\<close>

definition reports :: "world \<Rightarrow> string list" where
  "reports w = concat (map (\<lambda>ev. case ev of CtxError m \<Rightarrow> [m] | _ \<Rightarrow> []) (events w))"

text \<open>
  \<^verbatim>\<open>logger.info(msg, *args)\<close>. Creating the server installs the logging handler
  of \<^verbatim>\<open>FastMCP\<close> at level INFO; it formats a record outside any \<^verbatim>\<open>try\<close>, so what
  the formatting raises reaches the caller. The message of a record with arguments
  is \<^verbatim>\<open>msg % args\<close>: with an argument and no \<^verbatim>\<open>%\<close> in \<open>msg\<close> that is a
  TypeError (not all arguments converted). The source has no call of another
  shape; such a call is recorded as written.
\<close>

definition logger_info :: "string \<Rightarrow> string list \<Rightarrow> unit prog" where
  "logger_info msg args =
     (if args \<noteq> [] \<and> CHR ''%'' \<notin> set msg then done_with (Inl TypeError)
      else emit (LogInfo msg args))"

text \<open>
  What \<^verbatim>\<open>check_api_key\<close> passes to \<^verbatim>\<open>ctx.error\<close> and what it raises. It is a
  plain \<^verbatim>\<open>def\<close> and calls \<^verbatim>\<open>ctx.error(...)\<close> without \<^verbatim>\<open>await\<close>.
\<close>

definition missing_key_message :: string where
  "missing_key_message =
     ''NOTION_API_KEY environment variable is not set. Please set it before making API calls.''"

definition missing_key_error :: error where
  "missing_key_error = ValueError ''NOTION_API_KEY environment variable is not set''"

definition check_api_key :: "unit prog" where
  "check_api_key w =
     (let w = w\<lparr>NOTION_API_KEY := environ_key w\<rparr>
      in if \<not> truthy_opt (NOTION_API_KEY w)
         then pbind (not_awaited (ctx_error missing_key_message))
                (\<lambda>_. done_with (Inl missing_key_error)) w
         else (Inr (), w))"

definition get_headers :: "world \<Rightarrow> (string \<times> string) list" where
  "get_headers w =
     [(''Authorization'', ''Bearer '' @ str_opt (NOTION_API_KEY w)),
      (''Content-Type'', ''application/json''),
      (''Notion-Version'', NOTION_VERSION)]"

text \<open>The requests a world has seen, oldest first.\<close>

definition network_calls :: "world \<Rightarrow> request list" where
  "network_calls w = concat (map (\<lambda>ev. case ev of Http r \<Rightarrow> [r] | _ \<Rightarrow> []) (events w))"

text \<open>\<^verbatim>\<open>client.get(url, headers=get_headers())\<close> and \<^verbatim>\<open>client.post(url, headers=get_headers(), json=payload)\<close>.\<close>

definition client_get :: "(request \<Rightarrow> response result) \<Rightarrow> string \<Rightarrow> response prog" where
  "client_get net u w =
     (let req = \<lparr>http_method = GET, url = u, headers = get_headers w, json_payload = None\<rparr>
      in pbind (emit (Http req)) (\<lambda>_. done_with (net req)) w)"

definition client_post :: "(request \<Rightarrow> response result) \<Rightarrow> string \<Rightarrow> json \<Rightarrow> response prog" where
  "client_post net u payload w =
     (let req = \<lparr>http_method = POST, url = u, headers = get_headers w,
                 json_payload = Some payload\<rparr>
      in pbind (emit (Http req)) (\<lambda>_. done_with (net req)) w)"

definition response_json :: "response \<Rightarrow> json result" where
  "response_json r = (case json_body r of None \<Rightarrow> Inl JSONDecodeError | Some j \<Rightarrow> Inr j)"

definition error_text :: "string \<Rightarrow> response \<Rightarrow> string" where
  "error_text prefix r = prefix @ str_of_int (status_code r) @ '' - '' @ response_text r"

section \<open>search_notion_pages\<close>

text \<open>The request payload, built key by key as the source does.\<close>

definition search_payload :: "string option \<Rightarrow> string option \<Rightarrow> int \<Rightarrow> (string \<times> json) list" where
  "search_payload query filter_type page_size =
     (let payload = [];
          payload = (if truthy_opt query
                     then dict_set payload ''query'' (JStr (str_opt query)) else payload);
          payload = (if page_size \<noteq> 0
                     then dict_set payload ''page_size'' (JInt (min 100 page_size)) else payload);
          payload = (if truthy_opt filter_type
                        \<and> (filter_type = Some ''page'' \<or> filter_type = Some ''database'')
                     then dict_set payload ''filter''
                            (JObj [(''value'', JStr (str_opt filter_type)),
                                   (''property'', JStr ''object'')])
                     else payload);
          payload = dict_set payload ''sort''
                      (JObj [(''direction'', JStr ''descending''),
                             (''timestamp'', JStr ''last_edited_time'')])
      in payload)"

text \<open>
  The one request \<^verbatim>\<open>search_notion_pages\<close> posts, from a world \<open>w\<close> in which the key
  is set: the headers carry the key \<^verbatim>\<open>check_api_key\<close> has just read.
\<close>

definition search_request :: "world \<Rightarrow> string option \<Rightarrow> string option \<Rightarrow> int \<Rightarrow> request" where
  "search_request w query filter_type page_size =
     \<lparr>http_method = POST, url = ''https://api.notion.com/v1/search'',
      headers = get_headers (w\<lparr>NOTION_API_KEY := environ_key w\<rparr>),
      json_payload = Some (JObj (search_payload query filter_type page_size))\<rparr>"

text \<open>The title of one search hit, by its object type.\<close>

definition title_from :: "json \<Rightarrow> string result" where
  "title_from title_parts =
     (if truthy title_parts then plain_texts title_parts else Inr ''Untitled'')"

definition top_level_title :: "json \<Rightarrow> string result" where
  "top_level_title item =
     rbind (py_in ''title'' item) (\<lambda>has_title.
       if has_title then rbind (py_item item ''title'') title_from else Inr ''Untitled'')"

definition item_title :: "json \<Rightarrow> json \<Rightarrow> string result" where
  "item_title item item_type =
     (if item_type = JStr ''page'' then
        rbind (py_in ''properties'' item) (\<lambda>has_props.
        rbind (if has_props
               then rbind (py_item item ''properties'') (py_in ''title'')
               else Inr False) (\<lambda>has_title.
          if has_title then
            rbind (py_item item ''properties'') (\<lambda>props.
            rbind (py_item props ''title'') (\<lambda>title_prop.
            rbind (py_get title_prop ''title'' (JList [])) title_from))
          else top_level_title item))
      else if item_type = JStr ''database'' then top_level_title item
      else Inr ''Untitled'')"

text \<open>The body of the loop over the results: the entry it appends to \<^verbatim>\<open>output\<close>.\<close>

definition search_entry :: "unicode_table \<Rightarrow> json \<Rightarrow> string result" where
  "search_entry printable item =
     rbind (py_get item ''id'' (JStr ''Unknown ID'')) (\<lambda>item_id.
     rbind (py_get item ''object'' (JStr ''unknown'')) (\<lambda>item_type.
     rbind (item_title item item_type) (\<lambda>title.
     rbind (py_get item ''url'' (JStr ''No URL'')) (\<lambda>item_url.
     rbind (py_get item ''last_edited_time'' (JStr ''Unknown'')) (\<lambda>last_edited.
       Inr (''- '' @ title @ '' ('' @ py_str printable item_type @ '')'' @ newline
            @ ''  ID: '' @ py_str printable item_id @ newline
            @ ''  URL: '' @ py_str printable item_url @ newline
            @ ''  Last Edited: '' @ py_str printable last_edited))))))"

fun search_loop :: "unicode_table \<Rightarrow> json list \<Rightarrow> string list \<Rightarrow> string list result" where
  "search_loop printable [] output = Inr output"
| "search_loop printable (item # items) output =
     rbind (search_entry printable item) (\<lambda>entry. search_loop printable items (output @ [entry]))"

definition search_output :: "unicode_table \<Rightarrow> json \<Rightarrow> string result" where
  "search_output printable data =
     rbind (py_get data ''results'' (JList [])) (\<lambda>results.
       if \<not> truthy results then Inr ''No results found''
       else rbind (py_iter results) (\<lambda>items.
            rbind (search_loop printable items []) (\<lambda>output.
              Inr (str_join (newline @ newline) output))))"

definition search_notion_pages ::
  "unicode_table \<Rightarrow> (request \<Rightarrow> response result) \<Rightarrow> string option \<Rightarrow> string option \<Rightarrow> int \<Rightarrow> string prog" where
  "search_notion_pages printable net query filter_type page_size =
     pbind check_api_key (\<lambda>_.
       let payload = search_payload query filter_type page_size
       in pbind (emit (Print (''payload '' @ py_str printable (JObj payload)))) (\<lambda>_.
          pbind (client_post net ''https://api.notion.com/v1/search'' (JObj payload)) (\<lambda>response.
          pbind (done_with (response_json response)) (\<lambda>printed.
          pbind (emit (Print (py_str printable printed))) (\<lambda>_.
            if status_code response \<noteq> 200
            then done_with (Inr (error_text ''Error: '' response))
            else pbind (done_with (response_json response)) (\<lambda>data.
                 done_with (search_output printable data)))))))"

section \<open>get_page_content\<close>

definition page_title_of :: "json \<Rightarrow> string result" where
  "page_title_of page_data =
     rbind (py_in ''properties'' page_data) (\<lambda>has_props.
       if has_props then
         rbind (py_item page_data ''properties'') (\<lambda>props.
         rbind (py_get props ''title'' JNull) (\<lambda>by_title.
         rbind (if truthy by_title then Inr by_title else py_get props ''Name'' JNull) (\<lambda>title_prop.
         rbind (if truthy title_prop then py_in ''title'' title_prop else Inr False) (\<lambda>has_title.
           if has_title then rbind (py_item title_prop ''title'') title_from
           else Inr ''Untitled''))))
       else Inr ''Untitled'')"

text \<open>
  The loop over the child blocks, the same in \<^verbatim>\<open>get_page_content\<close> and in
  \<^verbatim>\<open>get_block_children\<close>: a block whose rendering is empty adds nothing.
\<close>

fun blocks_loop :: "unicode_table \<Rightarrow> json list \<Rightarrow> string list \<Rightarrow> string list result" where
  "blocks_loop printable [] output = Inr output"
| "blocks_loop printable (block # blocks) output =
     rbind (format_block printable block 0) (\<lambda>block_content.
       blocks_loop printable blocks (if block_content \<noteq> [] then output @ [block_content] else output))"

definition page_output :: "unicode_table \<Rightarrow> json \<Rightarrow> json \<Rightarrow> string result" where
  "page_output printable page_data blocks_data =
     rbind (page_title_of page_data) (\<lambda>page_title.
     rbind (py_get page_data ''id'' JNull) (\<lambda>page_id.
     rbind (py_get page_data ''url'' JNull) (\<lambda>page_url.
     rbind (py_get page_data ''last_edited_time'' JNull) (\<lambda>last_edited.
       let output = [''# '' @ page_title,
                     ''Page ID: '' @ py_str printable page_id,
                     ''URL: '' @ py_str printable page_url,
                     ''Last Edited: '' @ py_str printable last_edited,
                     newline @ ''## Content:'' @ newline]
       in rbind (py_get blocks_data ''results'' (JList [])) (\<lambda>results.
          rbind (py_iter results) (\<lambda>blocks.
          rbind (blocks_loop printable blocks output) (\<lambda>output.
            Inr (str_join newline output))))))))"

definition get_page_content :: "unicode_table \<Rightarrow> (request \<Rightarrow> response result) \<Rightarrow> string \<Rightarrow> string prog" where
  "get_page_content printable net page_id =
     pbind (logger_info ''get_page_content'' [page_id]) (\<lambda>_.
     pbind check_api_key (\<lambda>_.
     pbind (client_get net (''https://api.notion.com/v1/pages/'' @ page_id)) (\<lambda>response.
       if status_code response \<noteq> 200
       then done_with (Inr (error_text ''Error retrieving page: '' response))
       else pbind (done_with (response_json response)) (\<lambda>page_data.
            pbind (client_get net (''https://api.notion.com/v1/blocks/'' @ page_id @ ''/children''))
              (\<lambda>response.
                if status_code response \<noteq> 200
                then done_with (Inr (error_text ''Error retrieving page content: '' response))
                else pbind (done_with (response_json response)) (\<lambda>blocks_data.
                     done_with (page_output printable page_data blocks_data)))))))"

section \<open>get_database_content\<close>

text \<open>
  \<^verbatim>\<open>v.items()\<close>, \<^verbatim>\<open>len(v)\<close> and \<^verbatim>\<open>v += s\<close> for a string \<open>s\<close> (which extends a
  list by the characters of \<open>s\<close>) on a value of any type. The length of a string
  is the number of its characters.
\<close>

fun py_items :: "json \<Rightarrow> (string \<times> json) list result" where
  "py_items (JObj d) = Inr d"
| "py_items _ = Inl AttributeError"

fun py_len :: "json \<Rightarrow> int result" where
  "py_len (JList xs) = Inr (int (length xs))"
| "py_len (JObj d) = Inr (int (length d))"
| "py_len (JStr s) = Inr (int (length (utf8_chars s)))"
| "py_len _ = Inl TypeError"

fun py_iadd_str :: "json \<Rightarrow> string \<Rightarrow> json result" where
  "py_iadd_str (JStr s) t = Inr (JStr (s @ t))"
| "py_iadd_str (JList xs) t = Inr (JList (xs @ map JStr (utf8_chars t)))"
| "py_iadd_str _ t = Inl TypeError"

definition dict_item :: "(string \<times> json) list \<Rightarrow> string \<Rightarrow> json result" where
  "dict_item d k = (case map_of d k of None \<Rightarrow> Inl KeyError | Some v \<Rightarrow> Inr v)"

text \<open>
  The value shown for one property of an entry: \<^verbatim>\<open>prop_value\<close> after the
  \<^verbatim>\<open>if\<close>/\<^verbatim>\<open>elif\<close> chain, before the f-string formats it.
\<close>

fun property_value :: "unicode_table \<Rightarrow> json \<Rightarrow> json result" where
  "property_value printable (JObj prop_data) =
     (let prop_type = dict_get prop_data ''type'' (JStr ''unknown'')
      in if prop_type = JStr ''title'' \<and> dict_has prop_data ''title'' then
           rbind (dict_item prop_data ''title'') (\<lambda>title_parts.
           rbind (plain_texts title_parts) (\<lambda>s. Inr (JStr s)))
         else if prop_type = JStr ''rich_text'' \<and> dict_has prop_data ''rich_text'' then
           rbind (dict_item prop_data ''rich_text'') (\<lambda>text_parts.
           rbind (plain_texts text_parts) (\<lambda>s. Inr (JStr s)))
         else if prop_type = JStr ''number'' \<and> dict_has prop_data ''number'' then
           dict_item prop_data ''number''
         else if prop_type = JStr ''select'' \<and> dict_has prop_data ''select''
                 \<and> truthy (dict_get prop_data ''select'' JNull) then
           rbind (dict_item prop_data ''select'') (\<lambda>sel. py_get sel ''name'' (JStr []))
         else if prop_type = JStr ''multi_select'' \<and> dict_has prop_data ''multi_select'' then
           rbind (dict_item prop_data ''multi_select'') (\<lambda>options.
           rbind (join_field '', '' ''name'' options) (\<lambda>s. Inr (JStr s)))
         else if prop_type = JStr ''date'' \<and> dict_has prop_data ''date''
                 \<and> truthy (dict_get prop_data ''date'' JNull) then
           rbind (dict_item prop_data ''date'') (\<lambda>date_obj.
           rbind (py_get date_obj ''start'' (JStr [])) (\<lambda>start.
           rbind (py_get date_obj ''end'' (JStr [])) (\<lambda>end_date.
             if truthy end_date then py_iadd_str start ('' to '' @ py_str printable end_date)
             else Inr start)))
         else if prop_type = JStr ''checkbox'' \<and> dict_has prop_data ''checkbox'' then
           rbind (dict_item prop_data ''checkbox'') (\<lambda>c.
             Inr (JStr (if truthy c then check_mark else ballot_box)))
         else if prop_type = JStr ''url'' \<and> dict_has prop_data ''url'' then
           rbind (dict_item prop_data ''url'') (\<lambda>v.
             Inr (if truthy v then v else JStr ''N/A''))
         else if prop_type = JStr ''email'' \<and> dict_has prop_data ''email'' then
           rbind (dict_item prop_data ''email'') (\<lambda>v.
             Inr (if truthy v then v else JStr ''N/A''))
         else if prop_type = JStr ''phone_number'' \<and> dict_has prop_data ''phone_number'' then
           rbind (dict_item prop_data ''phone_number'') (\<lambda>v.
             Inr (if truthy v then v else JStr ''N/A''))
         else Inr (JStr ''N/A''))"
| "property_value printable _ = Inl AttributeError"

text \<open>The line \<^verbatim>\<open>f"- {prop_name}: {prop_value}"\<close> of one property.\<close>

definition property_line :: "unicode_table \<Rightarrow> string \<times> json \<Rightarrow> string result" where
  "property_line printable p =
     rbind (property_value printable (snd p)) (\<lambda>prop_value.
       Inr (''- '' @ fst p @ '': '' @ py_str printable prop_value))"

definition schema_line :: "unicode_table \<Rightarrow> string \<times> json \<Rightarrow> string result" where
  "schema_line printable p =
     rbind (py_get (snd p) ''type'' (JStr ''unknown'')) (\<lambda>prop_type.
       Inr (''- '' @ fst p @ '': '' @ py_str printable prop_type))"

text \<open>The loop over the entries, numbered from 1.\<close>

fun entries_loop :: "unicode_table \<Rightarrow> int \<Rightarrow> json list \<Rightarrow> string list \<Rightarrow> string list result" where
  "entries_loop printable i [] output = Inr output"
| "entries_loop printable i (entry # entries) output =
     rbind (py_get entry ''id'' JNull) (\<lambda>entry_id.
     rbind (py_get entry ''url'' JNull) (\<lambda>entry_url.
     rbind (py_get entry ''properties'' (JObj [])) (\<lambda>properties.
     rbind (py_items properties) (\<lambda>props.
     rbind (rmap (property_line printable) props) (\<lambda>lines.
       entries_loop printable (i + 1) entries
         (output @ [newline @ ''### Entry '' @ str_of_int i,
                    ''ID: '' @ py_str printable entry_id,
                    ''URL: '' @ py_str printable entry_url] @ lines))))))"

definition db_title_of :: "json \<Rightarrow> string result" where
  "db_title_of db_data =
     rbind (py_in ''title'' db_data) (\<lambda>has_title.
       if has_title then
         rbind (py_item db_data ''title'') (\<lambda>title_parts.
           if truthy title_parts then plain_texts title_parts else Inr ''Untitled Database'')
       else Inr ''Untitled Database'')"

definition database_output :: "unicode_table \<Rightarrow> json \<Rightarrow> json \<Rightarrow> string result" where
  "database_output printable db_data query_data =
     rbind (db_title_of db_data) (\<lambda>db_title.
     rbind (py_get db_data ''id'' JNull) (\<lambda>db_id.
     rbind (py_get db_data ''url'' JNull) (\<lambda>db_url.
     rbind (py_get db_data ''properties'' (JObj [])) (\<lambda>schema.
     rbind (py_items schema) (\<lambda>schema_props.
     rbind (rmap (schema_line printable) schema_props) (\<lambda>schema_lines.
     rbind (py_get query_data ''results'' (JList [])) (\<lambda>entries.
     rbind (py_len entries) (\<lambda>n.
     rbind (py_iter entries) (\<lambda>entry_list.
       let output = [''# '' @ db_title,
                     ''Database ID: '' @ py_str printable db_id,
                     ''URL: '' @ py_str printable db_url,
                     newline @ ''## Database Schema:'']
                    @ schema_lines
                    @ [newline @ ''## Database Entries ('' @ str_of_int n @ ''):'']
       in rbind (entries_loop printable 1 entry_list output) (\<lambda>output.
            Inr (str_join newline output)))))))))))"

definition get_database_content ::
  "unicode_table \<Rightarrow> (request \<Rightarrow> response result) \<Rightarrow> string \<Rightarrow> int \<Rightarrow> string prog" where
  "get_database_content printable net database_id max_pages =
     pbind check_api_key (\<lambda>_.
     pbind (client_get net (''https://api.notion.com/v1/databases/'' @ database_id)) (\<lambda>response.
       if status_code response \<noteq> 200
       then done_with (Inr (error_text ''Error retrieving database: '' response))
       else pbind (done_with (response_json response)) (\<lambda>db_data.
            let payload = JObj [(''page_size'', JInt (min max_pages 100))]
            in pbind (client_post net
                        (''https://api.notion.com/v1/databases/'' @ database_id @ ''/query'')
                        payload)
                 (\<lambda>response.
                   if status_code response \<noteq> 200
                   then done_with (Inr (error_text ''Error querying database: '' response))
                   else pbind (done_with (response_json response)) (\<lambda>query_data.
                        done_with (database_output printable db_data query_data))))))"

section \<open>get_block_children\<close>

definition children_output :: "unicode_table \<Rightarrow> json \<Rightarrow> string result" where
  "children_output printable data =
     rbind (py_get data ''results'' (JList [])) (\<lambda>results.
       if \<not> truthy results then Inr ''This block has no children.''
       else rbind (py_iter results) (\<lambda>blocks.
            rbind (blocks_loop printable blocks []) (\<lambda>output.
              Inr (str_join newline output))))"

definition get_block_children :: "unicode_table \<Rightarrow> (request \<Rightarrow> response result) \<Rightarrow> string \<Rightarrow> string prog" where
  "get_block_children printable net block_id =
     pbind check_api_key (\<lambda>_.
     pbind (client_get net (''https://api.notion.com/v1/blocks/'' @ block_id @ ''/children''))
       (\<lambda>response.
         if status_code response \<noteq> 200
         then done_with (Inr (error_text ''Error retrieving block children: '' response))
         else pbind (done_with (response_json response)) (\<lambda>data.
              done_with (children_output printable data))))"

section \<open>Sample inputs\<close>

text \<open>A callout as the API returns it when no icon is set: \<^verbatim>\<open>"icon": null\<close>.\<close>

definition null_icon_callout :: json where
  "null_icon_callout =
     JObj [(''type'', JStr ''callout''),
           (''callout'', JObj [(''rich_text'', JList []), (''icon'', JNull)])]"

text \<open>A number property of an entry whose cell is empty: \<^verbatim>\<open>"number": null\<close>.\<close>

definition empty_number_property :: "string \<times> json" where
  "empty_number_property = (''Price'', JObj [(''type'', JStr ''number''), (''number'', JNull)])"

text \<open>A table for the sample runs: every character beyond ASCII is printable.\<close>

definition all_printable :: unicode_table where
  "all_printable cp = True"

text \<open>
  Search results with one hit that is neither a page nor a database, between a
  database and a page.
\<close>

definition mixed_search_response :: response where
  "mixed_search_response =
     \<lparr>status_code = 200, response_text = [],
      json_body = Some (JObj [(''results'',
        JList [JObj [(''object'', JStr ''database''), (''id'', JStr ''d1'')],
               JObj [(''object'', JStr ''user''), (''id'', JStr ''u1'')],
               JObj [(''object'', JStr ''page''), (''id'', JStr ''p1'')]])])\<rparr>"

definition no_credential_world :: world where
  "no_credential_world = \<lparr>environ_key = None, NOTION_API_KEY = None, events = []\<rparr>"

definition keyed_world :: world where
  "keyed_world = \<lparr>environ_key = Some ''secret'', NOTION_API_KEY = None, events = []\<rparr>"

definition empty_search_response :: response where
  \<open>empty_search_response =
     \<lparr>status_code = 200, response_text = ''{"results": []}'',
      json_body = Some (JObj [(''results'', JList [])])\<rparr>\<close>

section \<open>Basic facts\<close>

lemma rbind_Inr [simp]: "rbind (Inr x) f = f x"
  by (simp add: rbind_def)

lemma rbind_Inl [simp]: "rbind (Inl e) f = Inl e"
  by (simp add: rbind_def)

lemma plain_texts_empty [simp]: "plain_texts (JList []) = Inr []"
  by (simp add: plain_texts_def join_field_def py_join_def)

lemma pbind_raise: "m w = (Inl e, w') \<Longrightarrow> pbind m f w = (Inl e, w')"
  by (simp add: pbind_def)

lemma check_api_key_missing:
  "\<not> truthy_opt (environ_key w) \<Longrightarrow>
     check_api_key w = (Inl missing_key_error, w\<lparr>NOTION_API_KEY := environ_key w\<rparr>)"
  by (simp add: check_api_key_def pbind_def not_awaited_def done_with_def)

lemma check_api_key_present:
  "truthy_opt (environ_key w) \<Longrightarrow>
     check_api_key w = (Inr (), w\<lparr>NOTION_API_KEY := environ_key w\<rparr>)"
  by (simp add: check_api_key_def)

text \<open>
  With the key set, \<^verbatim>\<open>search_notion_pages\<close> sends exactly one request, whatever the
  service answers, and its JSON body is the payload \<open>search_payload\<close> builds.
\<close>

lemma search_sends_payload:
  assumes "truthy_opt (environ_key w)"
  shows "network_calls (snd (search_notion_pages printable net query filter_type page_size w))
           = network_calls w @ [search_request w query filter_type page_size]"
  using assms
  by (simp add: search_notion_pages_def pbind_def check_api_key_def emit_def done_with_def
        client_post_def response_json_def network_calls_def get_headers_def Let_def
        search_request_def
      split: sum.splits option.splits prod.splits)

section \<open>The block renderer and missing sub-fields\<close>

text \<open>
  A payload with none of its sub-fields renders without raising, whatever the
  block type: every \<^verbatim>\<open>.get\<close> falls back to its default.
\<close>

lemma format_block_bare_payload:
  assumes "t \<noteq> []" and "t \<noteq> ''type''"
  shows "\<exists>out. format_block printable (JObj [(''type'', JStr t), (t, JObj [])]) indent
                 = Inr out"
  using assms
  by (simp add: format_block.simps dict_get_def dict_has_def Let_def block_entry_def
        rich_text_of_def image_url_def)

text \<open>
  C1: rendering a block never raises, also when expected sub-fields are missing or
  null; the claim names the callout whose \<^verbatim>\<open>icon\<close> is null. On that block the
  code raises: \<^verbatim>\<open>content.get("icon", {})\<close> returns the \<^verbatim>\<open>None\<close> that is stored
  under the key, not the default, and \<^verbatim>\<open>None\<close> has no \<^verbatim>\<open>get\<close>.
\<close>

theorem format_block_null_icon_raises:
  "format_block printable null_icon_callout 0 = Inl AttributeError"
  by (simp add: format_block.simps null_icon_callout_def dict_get_def dict_has_def
        block_entry_def rich_text_of_def)

section \<open>The placeholder for an unsupported block\<close>

text \<open>
  C2 as stated fails where the type is absent: the f-string formats \<^verbatim>\<open>None\<close>, so the
  bracketed part reads \<^verbatim>\<open>None\<close> and is not empty.
\<close>

theorem unsupported_counterexample:
  "format_block all_printable (JObj []) 0 = Inr ''[Unsupported block type: None]''
   \<and> format_block all_printable (JObj []) 0 \<noteq> Inr ''[Unsupported block type: ]''"
  by (simp add: format_block.simps dict_get_def unsupported_line_def str_times_def)

text \<open>
  C2, amended: a block with no \<^verbatim>\<open>type\<close> key renders as exactly the line
  \<^verbatim>\<open>[Unsupported block type: None]\<close> at the given indent, and a block whose type is
  a string \<open>t\<close> that is no key of the block renders as exactly
  \<^verbatim>\<open>[Unsupported block type: t]\<close> at the given indent.
\<close>

theorem unsupported_placeholder:
  "(map_of block ''type'' = None \<longrightarrow>
      format_block printable (JObj block) indent
        = Inr (str_times ''  '' indent @ ''[Unsupported block type: None]''))
   \<and> (map_of block ''type'' = Some (JStr t) \<and> map_of block t = None \<longrightarrow>
      format_block printable (JObj block) indent
        = Inr (str_times ''  '' indent @ ''[Unsupported block type: '' @ t @ '']''))"
  by (simp add: format_block.simps dict_get_def dict_has_def unsupported_line_def Let_def)

theorem unsupported_placeholder_witness:
  "map_of [(''id'', JStr ''b1'')] ''type'' = None
   \<and> format_block all_printable (JObj [(''id'', JStr ''b1'')]) 2
       = Inr ''    [Unsupported block type: None]''
   \<and> map_of [(''type'', JStr ''paragraph''), (''id'', JStr ''b1'')] ''type''
       = Some (JStr ''paragraph'')
   \<and> map_of [(''type'', JStr ''paragraph''), (''id'', JStr ''b1'')] ''paragraph'' = None
   \<and> format_block all_printable (JObj [(''type'', JStr ''paragraph''), (''id'', JStr ''b1'')]) 1
       = Inr ''  [Unsupported block type: paragraph]''"
  using unsupported_placeholder [where block = "[(''id'', JStr ''b1'')]" and indent = 2
      and printable = all_printable]
    unsupported_placeholder [where block = "[(''type'', JStr ''paragraph''), (''id'', JStr ''b1'')]"
      and t = "''paragraph''" and indent = 1 and printable = all_printable]
  by (simp add: str_times_def eval_nat_numeral)

section \<open>The note on child blocks\<close>

text \<open>
  C3 as stated fails for a block without a type: the placeholder is returned at
  once, before \<^verbatim>\<open>has_children\<close> is looked at, and the output holds no note.
\<close>

theorem children_note_counterexample:
  "format_block all_printable (JObj [(''has_children'', JBool True)]) 0
     = Inr ''[Unsupported block type: None]''
   \<and> \<not> is_substring (children_note []) ''[Unsupported block type: None]''"
  by (simp add: format_block.simps dict_get_def unsupported_line_def str_times_def
        children_note_def)

text \<open>
  C3, amended: for every block whose \<^verbatim>\<open>has_children\<close> is true, whose type is a
  non-empty string that is a key of the block, and whose payload renders without
  raising, the output is the rendered entry followed by one more line, at the same
  indent, noting that the block has child blocks that are not displayed. The
  renderer is a function of the block and the indent alone: it sends nothing.
\<close>

theorem children_note_appended:
  assumes "truthy (dict_get block ''has_children'' (JBool False))"
    and "map_of block ''type'' = Some (JStr t)"
    and "t \<noteq> []"
    and "map_of block t = Some content"
    and "block_entry printable (JStr t) content (str_times ''  '' indent) = Inr entry"
  shows "format_block printable (JObj block) indent
           = Inr (entry @ newline @ children_note (str_times ''  '' indent))"
  using assms by (simp add: format_block.simps dict_get_def dict_has_def Let_def)

theorem children_note_appended_witness:
  "truthy (dict_get [(''type'', JStr ''divider''), (''divider'', JObj []),
                     (''has_children'', JBool True)] ''has_children'' (JBool False))
   \<and> block_entry all_printable (JStr ''divider'') (JObj []) (str_times ''  '' 1) = Inr ''  ---''
   \<and> format_block all_printable
        (JObj [(''type'', JStr ''divider''), (''divider'', JObj []),
               (''has_children'', JBool True)]) 1
      = Inr (''  ---'' @ newline @ ''  [This block has child blocks that aren't displayed here]'')"
proof -
  let ?block = "[(''type'', JStr ''divider''), (''divider'', JObj []),
                 (''has_children'', JBool True)]"
  have 1: "truthy (dict_get ?block ''has_children'' (JBool False))"
    by (simp add: dict_get_def)
  have 2: "map_of ?block ''type'' = Some (JStr ''divider'')"
    by simp
  have 3: "''divider'' \<noteq> []"
    by simp
  have 4: "map_of ?block ''divider'' = Some (JObj [])"
    by simp
  have 5: "block_entry all_printable (JStr ''divider'') (JObj []) (str_times ''  '' 1)
             = Inr ''  ---''"
    by (simp add: block_entry_def str_times_def)
  show ?thesis
    using 1 5 children_note_appended [OF 1 2 3 4 5]
    by (simp add: children_note_def str_times_def)
qed

text \<open>
  \<^verbatim>\<open>get_block_children\<close> sends its one request and no other, whatever the blocks
  in the answer say about their children.
\<close>

lemma children_not_fetched:
  assumes "truthy_opt (environ_key w)"
  shows "network_calls (snd (get_block_children printable net block_id w))
           = network_calls w
             @ [\<lparr>http_method = GET,
                 url = ''https://api.notion.com/v1/blocks/'' @ block_id @ ''/children'',
                 headers = get_headers (w\<lparr>NOTION_API_KEY := environ_key w\<rparr>),
                 json_payload = None\<rparr>]"
  using assms
  by (simp add: get_block_children_def pbind_def check_api_key_def emit_def done_with_def
        client_get_def response_json_def network_calls_def get_headers_def Let_def
      split: sum.splits option.splits prod.splits)

section \<open>Property values of a database entry\<close>

text \<open>
  A number property shows its value as \<^verbatim>\<open>str\<close> writes it; a property whose value
  key is missing, and a URL that is null, show \<^verbatim>\<open>N/A\<close>.
\<close>

lemma number_renders_literal:
  "property_line printable (name, JObj [(''type'', JStr ''number''), (''number'', JInt n)])
     = Inr (''- '' @ name @ '': '' @ str_of_int n)"
  by (simp add: property_line_def dict_get_def dict_has_def dict_item_def)

lemma missing_number_renders_default:
  "property_line printable (name, JObj [(''type'', JStr ''number'')])
     = Inr (''- '' @ name @ '': N/A'')"
  by (simp add: property_line_def dict_get_def dict_has_def dict_item_def)

lemma null_url_renders_default:
  "property_line printable (name, JObj [(''type'', JStr ''url''), (''url'', JNull)])
     = Inr (''- '' @ name @ '': N/A'')"
  by (simp add: property_line_def dict_get_def dict_has_def dict_item_def)

text \<open>
  C4: a number property shows its literal value, and every missing or null value,
  the null number among them, shows \<^verbatim>\<open>N/A\<close>. On a number property whose value is
  null the code shows \<^verbatim>\<open>None\<close>: the number branch takes the value as it is, where
  the branches for \<^verbatim>\<open>url\<close>, \<^verbatim>\<open>email\<close>, \<^verbatim>\<open>phone_number\<close>, \<^verbatim>\<open>select\<close> and
  \<^verbatim>\<open>date\<close> test it first.
\<close>

theorem null_number_renders_None:
  "property_line printable empty_number_property = Inr ''- Price: None''"
  by (simp add: empty_number_property_def property_line_def dict_get_def dict_has_def
        dict_item_def)

section \<open>The missing credential\<close>

text \<open>
  With no key in the environment (the variable is unset or empty), three of the
  tools end with the ValueError of \<^verbatim>\<open>check_api_key\<close>, having done nothing but
  store the key they read: nothing is sent and nothing is reported.
\<close>

lemma missing_credential_raises:
  assumes "\<not> truthy_opt (environ_key w)"
  shows "search_notion_pages printable net query filter_type page_size w
           = (Inl missing_key_error, w\<lparr>NOTION_API_KEY := environ_key w\<rparr>)
       \<and> get_database_content printable net database_id max_pages w
           = (Inl missing_key_error, w\<lparr>NOTION_API_KEY := environ_key w\<rparr>)
       \<and> get_block_children printable net block_id w
           = (Inl missing_key_error, w\<lparr>NOTION_API_KEY := environ_key w\<rparr>)"
proof -
  let ?w' = "w\<lparr>NOTION_API_KEY := environ_key w\<rparr>"
  have check: "check_api_key w = (Inl missing_key_error, ?w')"
    using assms by (rule check_api_key_missing)
  have search:
    "search_notion_pages printable net query filter_type page_size w
       = (Inl missing_key_error, ?w')"
    unfolding search_notion_pages_def using check by (rule pbind_raise)
  have database:
    "get_database_content printable net database_id max_pages w = (Inl missing_key_error, ?w')"
    unfolding get_database_content_def using check by (rule pbind_raise)
  have children: "get_block_children printable net block_id w = (Inl missing_key_error, ?w')"
    unfolding get_block_children_def using check by (rule pbind_raise)
  show ?thesis
    by (simp add: search database children)
qed

text \<open>
  \<^verbatim>\<open>get_page_content\<close> does not get as far as the check: its first statement,
  \<^verbatim>\<open>logger.info("get_page_content", page_id)\<close>, raises, with a key or without.
\<close>

lemma get_page_content_logging_raises:
  "get_page_content printable net page_id w = (Inl TypeError, w)"
  by (simp add: get_page_content_def pbind_def logger_info_def done_with_def)

text \<open>
  C5: with no credential configured, every tool signals the error through the
  context's error reporting, then raises, before any network call. The code raises
  before any network call, but signals nothing: \<^verbatim>\<open>check_api_key\<close> calls the
  coroutine \<^verbatim>\<open>ctx.error\<close> without awaiting it, so the runs below end in the world
  they started in, with no report delivered; and \<^verbatim>\<open>get_page_content\<close> raises the
  TypeError of its logging call, not the error of the check.
\<close>

theorem missing_credential_not_reported:
  "search_notion_pages all_printable (\<lambda>req. Inl TransportError) None None 10 no_credential_world
     = (Inl missing_key_error, no_credential_world)
   \<and> get_database_content all_printable (\<lambda>req. Inl TransportError) ''d1'' 10 no_credential_world
     = (Inl missing_key_error, no_credential_world)
   \<and> get_block_children all_printable (\<lambda>req. Inl TransportError) ''b1'' no_credential_world
     = (Inl missing_key_error, no_credential_world)
   \<and> get_page_content all_printable (\<lambda>req. Inl TransportError) ''p1'' no_credential_world
     = (Inl TypeError, no_credential_world)
   \<and> reports no_credential_world = []
   \<and> network_calls no_credential_world = []"
proof -
  have h: "\<not> truthy_opt (environ_key no_credential_world)"
    by (simp add: no_credential_world_def)
  have same: "no_credential_world\<lparr>NOTION_API_KEY := environ_key no_credential_world\<rparr>
                = no_credential_world"
    by (simp add: no_credential_world_def)
  have quiet: "reports no_credential_world = [] \<and> network_calls no_credential_world = []"
    by (simp add: reports_def network_calls_def no_credential_world_def)
  show ?thesis
    using missing_credential_raises [OF h, where printable = all_printable] quiet
    by (simp add: same get_page_content_logging_raises)
qed

section \<open>The search payload\<close>

text \<open>
  C6 as stated fails at \<^verbatim>\<open>page_size = 0\<close>: the payload does not carry
  \<^verbatim>\<open>min(100, 0)\<close>, it carries no \<^verbatim>\<open>page_size\<close> at all.
\<close>

theorem page_size_zero_counterexample:
  "map_of (search_payload None None 0) ''page_size'' \<noteq> Some (JInt (min 100 0))"
  by (simp add: search_payload_def Let_def)

text \<open>
  C6, amended: for every requested \<^verbatim>\<open>page_size\<close> other than 0, the payload of the
  search request carries \<^verbatim>\<open>min(100, page_size)\<close> under \<^verbatim>\<open>page_size\<close>; requesting
  500 yields 100.
\<close>

theorem page_size_clamped:
  assumes "page_size \<noteq> 0"
  shows "map_of (search_payload query filter_type page_size) ''page_size''
           = Some (JInt (min 100 page_size))"
  using assms by (simp add: search_payload_def Let_def)

theorem page_size_clamped_witness:
  "(500::int) \<noteq> 0 \<and> map_of (search_payload None None 500) ''page_size'' = Some (JInt 100)"
proof -
  have h: "(500::int) \<noteq> 0"
    by simp
  show ?thesis
    using h page_size_clamped [OF h, of None None] by simp
qed

text \<open>
  C8: a \<^verbatim>\<open>filter_type\<close> that is neither \<^verbatim>\<open>"page"\<close> nor \<^verbatim>\<open>"database"\<close> (\<^verbatim>\<open>None\<close>
  and every other string) leaves the payload without a \<^verbatim>\<open>filter\<close> key, and raises
  nothing: the payload, and with it the whole run of the tool, is the one for no
  \<^verbatim>\<open>filter_type\<close> at all.
\<close>

theorem other_filter_ignored:
  assumes "filter_type \<noteq> Some ''page''" and "filter_type \<noteq> Some ''database''"
  shows "map_of (search_payload query filter_type page_size) ''filter'' = None
       \<and> search_payload query filter_type page_size = search_payload query None page_size
       \<and> search_notion_pages printable net query filter_type page_size
           = search_notion_pages printable net query None page_size"
proof -
  have same: "search_payload query filter_type page_size = search_payload query None page_size"
    using assms by (simp add: search_payload_def Let_def)
  have "map_of (search_payload query None page_size) ''filter'' = None"
    by (simp add: search_payload_def Let_def)
  with same show ?thesis
    by (simp add: search_notion_pages_def)
qed

theorem other_filter_ignored_witness:
  "Some ''pages'' \<noteq> Some ''page'' \<and> Some ''pages'' \<noteq> Some ''database''
   \<and> map_of (search_payload (Some ''zebra'') (Some ''pages'') 10) ''filter'' = None
   \<and> search_payload (Some ''zebra'') (Some ''pages'') 10
       = [(''query'', JStr ''zebra''), (''page_size'', JInt 10),
          (''sort'', JObj [(''direction'', JStr ''descending''),
                           (''timestamp'', JStr ''last_edited_time'')])]"
proof -
  have 1: "Some ''pages'' \<noteq> Some ''page''"
    by simp
  have 2: "Some ''pages'' \<noteq> Some ''database''"
    by simp
  have 3: "search_payload (Some ''zebra'') None 10
       = [(''query'', JStr ''zebra''), (''page_size'', JInt 10),
          (''sort'', JObj [(''direction'', JStr ''descending''),
                           (''timestamp'', JStr ''last_edited_time'')])]"
    by (simp add: search_payload_def Let_def)
  show ?thesis
    using 3 other_filter_ignored [OF 1 2, of "Some ''zebra''" 10] by simp
qed

text \<open>
  C9: with \<^verbatim>\<open>page_size = 0\<close> the payload has no \<^verbatim>\<open>page_size\<close> key, whatever the
  query and the filter type are.
\<close>

theorem page_size_zero_omitted:
  "map_of (search_payload query filter_type 0) ''page_size'' = None"
  by (simp add: search_payload_def Let_def)

section \<open>Search results\<close>

text \<open>
  C7: when the key is set, the service answers the search request with status 200
  and the result list of the answer is empty, the tool returns exactly
  \<^verbatim>\<open>No results found\<close>.
\<close>

theorem no_results_found:
  assumes "truthy_opt (environ_key w)"
    and "net (search_request w query filter_type page_size) = Inr response"
    and "status_code response = 200"
    and "json_body response = Some (JObj data)"
    and "dict_get data ''results'' (JList []) = JList []"
  shows "fst (search_notion_pages printable net query filter_type page_size w)
           = Inr ''No results found''"
  using assms
  by (simp add: search_notion_pages_def pbind_def check_api_key_def emit_def done_with_def
        client_post_def response_json_def get_headers_def Let_def search_request_def
        search_output_def)

theorem no_results_found_witness:
  "truthy_opt (environ_key keyed_world)
   \<and> status_code empty_search_response = 200
   \<and> json_body empty_search_response = Some (JObj [(''results'', JList [])])
   \<and> fst (search_notion_pages all_printable (\<lambda>req. Inr empty_search_response)
            (Some ''zebra'') None 10 keyed_world)
       = Inr ''No results found''"
proof -
  have 1: "truthy_opt (environ_key keyed_world)"
    by (simp add: keyed_world_def)
  have 2: "(\<lambda>req. Inr empty_search_response) (search_request keyed_world (Some ''zebra'') None 10)
             = Inr empty_search_response"
    by simp
  have 3: "status_code empty_search_response = 200"
    by (simp add: empty_search_response_def)
  have 4: "json_body empty_search_response = Some (JObj [(''results'', JList [])])"
    by (simp add: empty_search_response_def)
  have 5: "dict_get [(''results'', JList [])] ''results'' (JList []) = JList []"
    by (simp add: dict_get_def)
  show ?thesis
    using 1 3 4 no_results_found [where printable = all_printable, OF 1 2 3 4 5] by simp
qed

text \<open>
  The loop over the results renders the items one by one, in order, onto the end
  of what it was given.
\<close>

lemma search_loop_output:
  "search_loop printable xs out
     = rbind (search_loop printable xs []) (\<lambda>ys. Inr (out @ ys))"
proof (induction xs arbitrary: out)
  case Nil
  show ?case by simp
next
  case (Cons x xs)
  show ?case
  proof (cases "search_entry printable x")
    case (Inl e)
    then show ?thesis by simp
  next
    case (Inr entry)
    have 1: "search_loop printable xs (out @ [entry])
               = rbind (search_loop printable xs []) (\<lambda>ys. Inr ((out @ [entry]) @ ys))"
      by (rule Cons.IH)
    have 2: "search_loop printable xs [entry]
               = rbind (search_loop printable xs []) (\<lambda>ys. Inr ([entry] @ ys))"
      by (rule Cons.IH)
    show ?thesis
      using Inr 1 2 by (cases "search_loop printable xs []") simp_all
  qed
qed

lemma search_loop_append:
  "search_loop printable (xs @ zs) out
     = rbind (search_loop printable xs out) (search_loop printable zs)"
  by (induction xs arbitrary: out) (simp_all add: rbind_def split: sum.splits)

text \<open>
  C10: a result item whose \<^verbatim>\<open>object\<close> field is neither \<^verbatim>\<open>"page"\<close> nor
  \<^verbatim>\<open>"database"\<close> (\<^verbatim>\<open>"unknown"\<close> when the field is absent) is not skipped. The
  loop body renders it with the title \<^verbatim>\<open>Untitled\<close>, the object type, the ID, the
  URL and the last-edited time, each with its default when absent; the loop
  appends that entry; and when the key is set, the service answers with status 200
  and the other items of the result list render, the text the tool returns is
  the listing of all entries in the order of the results, this one in its place,
  joined by blank lines.
\<close>

theorem other_object_listed:
  assumes "item_type = dict_get item ''object'' (JStr ''unknown'')"
    and "item_type \<noteq> JStr ''page''" and "item_type \<noteq> JStr ''database''"
    and "entry = ''- Untitled ('' @ py_str printable item_type @ '')'' @ newline
                 @ ''  ID: '' @ py_str printable (dict_get item ''id'' (JStr ''Unknown ID''))
                 @ newline
                 @ ''  URL: '' @ py_str printable (dict_get item ''url'' (JStr ''No URL''))
                 @ newline
                 @ ''  Last Edited: ''
                 @ py_str printable (dict_get item ''last_edited_time'' (JStr ''Unknown''))"
    and "truthy_opt (environ_key w)"
    and "net (search_request w query filter_type page_size) = Inr response"
    and "status_code response = 200"
    and "json_body response = Some (JObj data)"
    and "dict_get data ''results'' (JList []) = JList (earlier @ JObj item # later)"
    and "search_loop printable earlier [] = Inr shown_earlier"
    and "search_loop printable later [] = Inr shown_later"
  shows "search_entry printable (JObj item) = Inr entry
       \<and> search_loop printable (JObj item # items) output
           = search_loop printable items (output @ [entry])
       \<and> fst (search_notion_pages printable net query filter_type page_size w)
           = Inr (str_join (newline @ newline) (shown_earlier @ entry # shown_later))"
proof -
  have entry: "search_entry printable (JObj item) = Inr entry"
    using assms(1-4) by (simp add: search_entry_def item_title_def)
  have step: "search_loop printable (JObj item # rest) out
                = search_loop printable rest (out @ [entry])" for rest out
    using entry by simp
  have "search_loop printable (earlier @ JObj item # later) []
          = search_loop printable later (shown_earlier @ [entry])"
    using assms(10) step by (simp add: search_loop_append)
  also have "\<dots> = Inr ((shown_earlier @ [entry]) @ shown_later)"
    using assms(11) by (simp add: search_loop_output [of printable later "shown_earlier @ [entry]"])
  finally have listing: "search_loop printable (earlier @ JObj item # later) []
                           = Inr (shown_earlier @ entry # shown_later)"
    by simp
  have returned: "search_output printable (JObj data)
                  = Inr (str_join (newline @ newline) (shown_earlier @ entry # shown_later))"
    using assms(9) listing by (simp add: search_output_def)
  have "fst (search_notion_pages printable net query filter_type page_size w)
          = Inr (str_join (newline @ newline) (shown_earlier @ entry # shown_later))"
    using assms(5-8) returned
    by (simp add: search_notion_pages_def pbind_def check_api_key_def emit_def done_with_def
          client_post_def response_json_def get_headers_def Let_def search_request_def)
  with entry step show ?thesis
    by simp
qed

theorem other_object_listed_witness:
  "dict_get [(''object'', JStr ''user''), (''id'', JStr ''u1'')] ''object'' (JStr ''unknown'')
     = JStr ''user''
   \<and> JStr ''user'' \<noteq> JStr ''page'' \<and> JStr ''user'' \<noteq> JStr ''database''
   \<and> truthy_opt (environ_key keyed_world)
   \<and> status_code mixed_search_response = 200
   \<and> search_loop all_printable [JObj [(''object'', JStr ''user''), (''id'', JStr ''u1'')]] []
       = Inr [''- Untitled (user)'' @ newline @ ''  ID: u1'' @ newline @ ''  URL: No URL''
              @ newline @ ''  Last Edited: Unknown'']
   \<and> fst (search_notion_pages all_printable (\<lambda>req. Inr mixed_search_response) None None 10
            keyed_world)
       = Inr (''- Untitled (database)'' @ newline @ ''  ID: d1'' @ newline @ ''  URL: No URL''
              @ newline @ ''  Last Edited: Unknown'' @ newline @ newline
              @ ''- Untitled (user)'' @ newline @ ''  ID: u1'' @ newline @ ''  URL: No URL''
              @ newline @ ''  Last Edited: Unknown'' @ newline @ newline
              @ ''- Untitled (page)'' @ newline @ ''  ID: p1'' @ newline @ ''  URL: No URL''
              @ newline @ ''  Last Edited: Unknown'')"
proof -
  let ?item = "[(''object'', JStr ''user''), (''id'', JStr ''u1'')]"
  let ?earlier = "[JObj [(''object'', JStr ''database''), (''id'', JStr ''d1'')]]"
  let ?later = "[JObj [(''object'', JStr ''page''), (''id'', JStr ''p1'')]]"
  let ?data = "[(''results'', JList (?earlier @ JObj ?item # ?later))]"
  have 1: "JStr ''user'' = dict_get ?item ''object'' (JStr ''unknown'')"
    by (simp add: dict_get_def)
  have 2: "JStr ''user'' \<noteq> JStr ''page''"
    by simp
  have 3: "JStr ''user'' \<noteq> JStr ''database''"
    by simp
  have 5: "truthy_opt (environ_key keyed_world)"
    by (simp add: keyed_world_def)
  have 6: "(\<lambda>req. Inr mixed_search_response) (search_request keyed_world None None 10)
             = Inr mixed_search_response"
    by simp
  have 7: "status_code mixed_search_response = 200"
    by (simp add: mixed_search_response_def)
  have 8: "json_body mixed_search_response = Some (JObj ?data)"
    by (simp add: mixed_search_response_def)
  have 9: "dict_get ?data ''results'' (JList []) = JList (?earlier @ JObj ?item # ?later)"
    by (simp add: dict_get_def)
  have 10: "search_loop all_printable ?earlier []
              = Inr [''- Untitled (database)'' @ newline @ ''  ID: d1'' @ newline
                     @ ''  URL: No URL'' @ newline @ ''  Last Edited: Unknown'']"
    by (simp add: search_entry_def item_title_def top_level_title_def dict_get_def dict_has_def)
  have 11: "search_loop all_printable ?later []
              = Inr [''- Untitled (page)'' @ newline @ ''  ID: p1'' @ newline
                     @ ''  URL: No URL'' @ newline @ ''  Last Edited: Unknown'']"
    by (simp add: search_entry_def item_title_def top_level_title_def dict_get_def dict_has_def)
  show ?thesis
    using 5 7
      other_object_listed [where printable = all_printable and items = "[]",
        OF 1 2 3 refl 5 6 7 8 9 10 11, of "[]"]
    by (simp add: dict_get_def)
qed

end
